theory Spec2Isabelle
  imports Complex_Main
begin

section \<open>The Python runtime the program touches\<close>

text \<open>
  The program is \<^verbatim>\<open>financial_budget.py\<close>. It uses of its numbers only \<open>0\<close>,
  \<open>+\<close>, \<open>-\<close> and \<open><\<close>, so the model leaves the type of numbers \<open>'f\<close> open: at
  \<open>pyfloat\<close> (defined below) the arithmetic is that of Python floats, with rounding,
  infinities and NaN; at \<^typ>\<open>real\<close> it is exact. Exceptions are values:
  every method returns its outcome (\<open>Inl\<close> the exception raised, \<open>Inr\<close> the value
  returned) together with the state it leaves behind, because a Python exception does not
  undo the assignments made before it was raised.
\<close>

datatype exn =
    ValueError string    \<comment> \<open>the message, as \<^verbatim>\<open>str(e)\<close> prints it\<close>
  | EOFError             \<comment> \<open>\<^verbatim>\<open>input()\<close> at the end of standard input\<close>
  | AttributeError string  \<comment> \<open>the attribute looked up on \<^verbatim>\<open>None\<close>\<close>

type_synonym timestamp = nat  \<comment> \<open>a clock reading, in seconds\<close>
type_synonym ref = nat        \<comment> \<open>the address of a list object\<close>

record 'f Transaction =
  tx_description :: string
  tx_amount :: 'f
  tx_timestamp :: timestamp

text \<open>
  The world outside the objects: the store of list objects (a \<^verbatim>\<open>TransactionLog\<close>
  holds a reference to its list, and so does whoever received that reference), the lines
  still to be read from standard input, what has been written to standard output, and the
  ambient clock, whose \<open>i\<close>-th reading is \<open>clock i\<close>.
\<close>

record 'f world =
  lists :: "ref \<Rightarrow> 'f Transaction list"
  next_ref :: ref
  stdin :: "string list"
  stdout :: "string list"
  clock :: "nat \<Rightarrow> timestamp"
  clock_reads :: nat

text \<open>
  Library functions whose code is not part of the repository are parameters:
  \<^verbatim>\<open>float(s)\<close> on a string (\<open>Inl msg\<close> when it raises \<^verbatim>\<open>ValueError(msg)\<close>),
  the format \<^verbatim>\<open>:.2f\<close> and \<^verbatim>\<open>strftime("%H:%M:%S")\<close>.
\<close>

record 'f builtins =
  py_float :: "string \<Rightarrow> string + 'f"
  format_2f :: "'f \<Rightarrow> string"
  strftime_HMS :: "timestamp \<Rightarrow> string"

definition NL :: char where
  "NL = CHR 0x0A"

definition float_py :: "'f builtins \<Rightarrow> string \<Rightarrow> exn + 'f" where
  "float_py py s = (case py_float py s of Inl msg \<Rightarrow> Inl (ValueError msg) | Inr x \<Rightarrow> Inr x)"

definition input_py :: "string \<Rightarrow> 'f world
     \<Rightarrow> (exn + string) \<times> 'f world" where
  "input_py prompt w =
     (let w1 = w\<lparr>stdout := stdout w @ [prompt]\<rparr>
      in case stdin w1 of
           [] \<Rightarrow> (Inl EOFError, w1)
         | line # rest \<Rightarrow> (Inr line, w1\<lparr>stdin := rest\<rparr>))"

definition print_py :: "string \<Rightarrow> 'f world \<Rightarrow> 'f world" where
  "print_py s w = w\<lparr>stdout := stdout w @ [s @ [NL]]\<rparr>"

definition datetime_now :: "'f world \<Rightarrow> timestamp \<times> 'f world" where
  "datetime_now w = (clock w (clock_reads w), w\<lparr>clock_reads := Suc (clock_reads w)\<rparr>)"

definition list_new :: "'f world \<Rightarrow> ref \<times> 'f world" where
  "list_new w =
     (next_ref w, w\<lparr>lists := (lists w)(next_ref w := []), next_ref := Suc (next_ref w)\<rparr>)"

definition list_append :: "ref \<Rightarrow> 'f Transaction \<Rightarrow> 'f world
     \<Rightarrow> 'f world" where
  "list_append r x w = w\<lparr>lists := (lists w)(r := lists w r @ [x])\<rparr>"

definition list_clear :: "ref \<Rightarrow> 'f world \<Rightarrow> 'f world" where
  "list_clear r w = w\<lparr>lists := (lists w)(r := [])\<rparr>"

definition digit_char :: "nat \<Rightarrow> char" where
  "digit_char d = char_of (of_char CHR ''0'' + d)"

fun str_nat :: "nat \<Rightarrow> string" where
  "str_nat n = (if n < 10 then [digit_char n] else str_nat (n div 10) @ [digit_char (n mod 10)])"

declare str_nat.simps [simp del]

section \<open>Transaction\<close>

definition Transaction_init :: "string \<Rightarrow> 'f \<Rightarrow> 'f world
     \<Rightarrow> (exn + 'f Transaction) \<times> 'f world" where
  "Transaction_init description amount w =
     (let (now, w1) = datetime_now w
      in (Inr \<lparr>tx_description = description, tx_amount = amount, tx_timestamp = now\<rparr>, w1))"

text \<open>The read-only properties \<^verbatim>\<open>description\<close>, \<^verbatim>\<open>amount\<close> and \<^verbatim>\<open>timestamp\<close>.\<close>

definition Transaction_description :: "'f Transaction \<Rightarrow> string" where
  "Transaction_description self = tx_description self"

definition Transaction_amount :: "'f Transaction \<Rightarrow> 'f" where
  "Transaction_amount self = tx_amount self"

definition Transaction_timestamp :: "'f Transaction \<Rightarrow> timestamp" where
  "Transaction_timestamp self = tx_timestamp self"

section \<open>Budget\<close>

record 'f Budget =
  budget_amount :: 'f
  budget_spent :: 'f

definition Budget_init :: "('f::{zero,plus,minus,ord}) \<Rightarrow> exn + 'f Budget" where
  "Budget_init amount =
     (if amount < 0 then Inl (ValueError ''Budget cannot be negative'')
      else Inr \<lparr>budget_amount = amount, budget_spent = 0\<rparr>)"

text \<open>
  A property getter is a method like any other: it receives the object and returns its
  value with the object as the call leaves it.
\<close>

definition total_budget :: "'f Budget \<Rightarrow> 'f \<times> 'f Budget" where
  "total_budget self = (budget_amount self, self)"

definition total_spent :: "'f Budget \<Rightarrow> 'f \<times> 'f Budget" where
  "total_spent self = (budget_spent self, self)"

definition remaining :: "('f::{zero,plus,minus,ord}) Budget \<Rightarrow> 'f \<times> 'f Budget" where
  "remaining self = (budget_amount self - budget_spent self, self)"

definition is_exceeded :: "('f::{zero,plus,minus,ord}) Budget
     \<Rightarrow> bool \<times> 'f Budget" where
  "is_exceeded self = (budget_spent self > budget_amount self, self)"

definition deficit :: "('f::{zero,plus,minus,ord}) Budget \<Rightarrow> 'f \<times> 'f Budget" where
  "deficit self =
     (let (exceeded, self1) = is_exceeded self
      in if exceeded then (budget_spent self1 - budget_amount self1, self1) else (0, self1))"

definition add_expense :: "('f::{zero,plus,minus,ord}) \<Rightarrow> 'f Budget
     \<Rightarrow> (exn + unit) \<times> 'f Budget" where
  "add_expense amount self =
     (if amount < 0 then (Inl (ValueError ''Expense amount cannot be negative''), self)
      else (Inr (), self\<lparr>budget_spent := budget_spent self + amount\<rparr>))"

text \<open>
  Recording a sequence of amounts, one call of \<open>add_expense\<close> after the other; the
  first exception ends the sequence, as it would end the caller.
\<close>

fun add_expenses :: "('f::{zero,plus,minus,ord}) list \<Rightarrow> 'f Budget
     \<Rightarrow> (exn + unit) \<times> 'f Budget" where
  "add_expenses [] self = (Inr (), self)"
| "add_expenses (a # as) self =
     (case add_expense a self of
        (Inl e, self1) \<Rightarrow> (Inl e, self1)
      | (Inr _, self1) \<Rightarrow> add_expenses as self1)"

section \<open>TransactionLog\<close>

record TransactionLog =
  log_transactions :: ref

definition TransactionLog_init :: "'f world \<Rightarrow> TransactionLog \<times> 'f world" where
  "TransactionLog_init w = (let (r, w1) = list_new w in (\<lparr>log_transactions = r\<rparr>, w1))"

definition add_transaction ::
  "string \<Rightarrow> 'f \<Rightarrow> TransactionLog \<Rightarrow> 'f world \<Rightarrow> (exn + 'f Transaction) \<times> 'f world" where
  "add_transaction description amount self w =
     (case Transaction_init description amount w of
        (Inl e, w1) \<Rightarrow> (Inl e, w1)
      | (Inr transaction, w1) \<Rightarrow>
          (Inr transaction, list_append (log_transactions self) transaction w1))"

definition transactions :: "TransactionLog \<Rightarrow> 'f world
     \<Rightarrow> ref \<times> 'f world" where
  "transactions self w = (log_transactions self, w)"

definition count :: "TransactionLog \<Rightarrow> 'f world \<Rightarrow> nat \<times> 'f world" where
  "count self w = (length (lists w (log_transactions self)), w)"

definition get_total :: "TransactionLog \<Rightarrow> ('f::{zero,plus,minus,ord}) world
     \<Rightarrow> 'f \<times> 'f world" where
  "get_total self w = (foldl (\<lambda>acc t. acc + Transaction_amount t) 0 (lists w (log_transactions self)), w)"

definition iter :: "TransactionLog \<Rightarrow> 'f world
     \<Rightarrow> 'f Transaction list \<times> 'f world" where
  "iter self w = (lists w (log_transactions self), w)"

section \<open>FinanceManager\<close>

record 'f FinanceManager =
  budget :: "'f Budget option"
  transaction_log :: TransactionLog

definition FinanceManager_init :: "'f world \<Rightarrow> 'f FinanceManager \<times> 'f world" where
  "FinanceManager_init w =
     (let (lg, w1) = TransactionLog_init w in (\<lparr>budget = None, transaction_log = lg\<rparr>, w1))"

definition invalid_input :: "string \<Rightarrow> string" where
  "invalid_input e = ''Invalid input: '' @ e @ ''. Please try again.''"

text \<open>
  The body of the \<^verbatim>\<open>try\<close> of \<open>get_budget\<close>: one pass through the loop, up to the
  \<^verbatim>\<open>return\<close> or the exception.
\<close>

definition get_budget_try ::
  "('f::{zero,plus,minus,ord}) builtins \<Rightarrow> 'f FinanceManager \<Rightarrow> 'f world
     \<Rightarrow> (exn + 'f Budget) \<times> 'f FinanceManager \<times> 'f world" where
  "get_budget_try py self w =
     (case input_py ''Enter your weekly budget: '' w of
        (Inl e, w1) \<Rightarrow> (Inl e, self, w1)
      | (Inr line, w1) \<Rightarrow>
          (case float_py py line of
             Inl e \<Rightarrow> (Inl e, self, w1)
           | Inr amount \<Rightarrow>
               (case Budget_init amount of
                  Inl e \<Rightarrow> (Inl e, self, w1)
                | Inr b \<Rightarrow> (Inr b, self\<lparr>budget := Some b\<rparr>, w1))))"

text \<open>
  \<^verbatim>\<open>while True\<close> around \<^verbatim>\<open>try ... except ValueError\<close>: a \<^verbatim>\<open>ValueError\<close> is
  printed and the loop goes round again; any other exception leaves the method.
\<close>

function get_budget ::
  "('f::{zero,plus,minus,ord}) builtins \<Rightarrow> 'f FinanceManager \<Rightarrow> 'f world
     \<Rightarrow> (exn + 'f Budget) \<times> 'f FinanceManager \<times> 'f world" where
  "get_budget py self w =
     (case get_budget_try py self w of
        (Inl (ValueError e), self1, w1) \<Rightarrow> get_budget py self1 (print_py (invalid_input e) w1)
      | (Inl e, self1, w1) \<Rightarrow> (Inl e, self1, w1)
      | (Inr b, self1, w1) \<Rightarrow> (Inr b, self1, w1))"
  by pat_completeness auto
termination
proof (relation "measure (\<lambda>(py, self, w). length (stdin w))")
  show "wf (measure (\<lambda>(py, self, w). length (stdin w)))"
    by simp
next
  fix py :: "('f::{zero,plus,minus,ord}) builtins" and self self1 :: "'f FinanceManager"
    and w w1 :: "'f world" and r :: "exn + 'f Budget" and p :: "'f FinanceManager \<times> 'f world"
    and x :: exn and e :: string
  assume "(r, p) = get_budget_try py self w" "(self1, w1) = p" "r = Inl x" "x = ValueError e"
  then have "get_budget_try py self w = (Inl (ValueError e), self1, w1)"
    by simp
  then have "length (stdin w1) < length (stdin w)"
    by (auto simp: get_budget_try_def input_py_def Let_def
             split: list.splits sum.splits prod.splits)
  then show "((py, self1, print_py (invalid_input e) w1), py, self, w)
      \<in> measure (\<lambda>(py, self, w). length (stdin w))"
    by (simp add: print_py_def)
qed

declare get_budget.simps [simp del]

text \<open>
  The body of the \<^verbatim>\<open>try\<close> of \<open>get_transaction\<close>. The transaction is appended to
  the log first; \<open>add_expense\<close> is called after, on the budget the manager holds
  (\<^verbatim>\<open>None\<close> until \<open>get_budget\<close> has returned).
\<close>

definition get_transaction_try ::
  "('f::{zero,plus,minus,ord}) builtins \<Rightarrow> string \<Rightarrow> 'f FinanceManager \<Rightarrow> 'f world
     \<Rightarrow> (exn + 'f Transaction) \<times> 'f FinanceManager \<times> 'f world" where
  "get_transaction_try py description self w =
     (case input_py ''Enter expense amount: '' w of
        (Inl e, w1) \<Rightarrow> (Inl e, self, w1)
      | (Inr line, w1) \<Rightarrow>
          (case float_py py line of
             Inl e \<Rightarrow> (Inl e, self, w1)
           | Inr amount \<Rightarrow>
               (case add_transaction description amount (transaction_log self) w1 of
                  (Inl e, w2) \<Rightarrow> (Inl e, self, w2)
                | (Inr transaction, w2) \<Rightarrow>
                    (case budget self of
                       None \<Rightarrow> (Inl (AttributeError ''add_expense''), self, w2)
                     | Some b \<Rightarrow>
                         (case add_expense amount b of
                            (Inl e, b1) \<Rightarrow> (Inl e, self\<lparr>budget := Some b1\<rparr>, w2)
                          | (Inr _, b1) \<Rightarrow>
                              (Inr transaction, self\<lparr>budget := Some b1\<rparr>, w2))))))"

function get_transaction_loop ::
  "('f::{zero,plus,minus,ord}) builtins \<Rightarrow> string \<Rightarrow> 'f FinanceManager \<Rightarrow> 'f world
     \<Rightarrow> (exn + 'f Transaction) \<times> 'f FinanceManager \<times> 'f world" where
  "get_transaction_loop py description self w =
     (case get_transaction_try py description self w of
        (Inl (ValueError e), self1, w1) \<Rightarrow>
          get_transaction_loop py description self1 (print_py (invalid_input e) w1)
      | (Inl e, self1, w1) \<Rightarrow> (Inl e, self1, w1)
      | (Inr transaction, self1, w1) \<Rightarrow> (Inr transaction, self1, w1))"
  by pat_completeness auto
termination
proof (relation "measure (\<lambda>(py, description, self, w). length (stdin w))")
  show "wf (measure (\<lambda>(py, description, self, w). length (stdin w)))"
    by simp
next
  fix py :: "('f::{zero,plus,minus,ord}) builtins" and description e :: string
    and self self1 :: "'f FinanceManager" and w w1 :: "'f world"
    and r :: "exn + 'f Transaction" and p :: "'f FinanceManager \<times> 'f world" and x :: exn
  assume "(r, p) = get_transaction_try py description self w" "(self1, w1) = p"
    "r = Inl x" "x = ValueError e"
  then have "get_transaction_try py description self w = (Inl (ValueError e), self1, w1)"
    by simp
  then have "length (stdin w1) < length (stdin w)"
    by (auto simp: get_transaction_try_def input_py_def add_transaction_def
               Transaction_init_def datetime_now_def list_append_def Let_def
             split: list.splits sum.splits prod.splits option.splits)
  then show "((py, description, self1, print_py (invalid_input e) w1), py, description, self, w)
      \<in> measure (\<lambda>(py, description, self, w). length (stdin w))"
    by (simp add: print_py_def)
qed

declare get_transaction_loop.simps [simp del]

definition get_transaction ::
  "('f::{zero,plus,minus,ord}) builtins \<Rightarrow> 'f FinanceManager \<Rightarrow> 'f world
     \<Rightarrow> (exn + 'f Transaction) \<times> 'f FinanceManager \<times> 'f world" where
  "get_transaction py self w =
     (case input_py ''Enter expense description: '' w of
        (Inl e, w1) \<Rightarrow> (Inl e, self, w1)
      | (Inr description, w1) \<Rightarrow> get_transaction_loop py description self w1)"

definition check_budget_status ::
  "('f::{zero,plus,minus,ord}) FinanceManager \<Rightarrow> 'f world
     \<Rightarrow> (exn + unit) \<times> 'f FinanceManager \<times> 'f world" where
  "check_budget_status self w =
     (case budget self of
        None \<Rightarrow> (Inl (AttributeError ''is_exceeded''), self, w)
      | Some b \<Rightarrow>
          (let (exceeded, b1) = is_exceeded b;
               self1 = self\<lparr>budget := Some b1\<rparr>
           in if exceeded
              then (Inr (), self1, print_py ''WARNING: You have exceeded your budget!'' w)
              else (Inr (), self1, w)))"

definition print_transactions ::
  "'f builtins \<Rightarrow> (nat \<times> 'f Transaction) list \<Rightarrow> 'f world
     \<Rightarrow> 'f world" where
  "print_transactions py its w =
     fold (\<lambda>(i, transaction) w1.
             print_py (str_nat i @ ''. '' @ Transaction_description transaction @ '' - UGX ''
                       @ format_2f py (Transaction_amount transaction)
                       @ '' ['' @ strftime_HMS py (Transaction_timestamp transaction) @ '']'') w1)
          its w"

definition print_summary ::
  "('f::{zero,plus,minus,ord}) builtins \<Rightarrow> 'f FinanceManager \<Rightarrow> 'f world
     \<Rightarrow> (exn + unit) \<times> 'f FinanceManager \<times> 'f world" where
  "print_summary py self w =
     (let w1 = print_py (NL # ''========== FINAL FINANCIAL SUMMARY =========='') w
      in case budget self of
           None \<Rightarrow> (Inl (AttributeError ''total_budget''), self, w1)
         | Some b \<Rightarrow>
             (let (tb, b1) = total_budget b;
                  w2 = print_py (''Initial Budget: UGX '' @ format_2f py tb) w1;
                  (ts, b2) = total_spent b1;
                  w3 = print_py (''Total Expenses: UGX '' @ format_2f py ts) w2;
                  (exceeded, b3) = is_exceeded b2;
                  (b4, w4) =
                    (if exceeded
                     then (let (d, b') = deficit b3
                           in (b', print_py (''Deficit: UGX '' @ format_2f py d) w3))
                     else (let (r, b') = remaining b3
                           in (b', print_py (''Remaining Balance: UGX '' @ format_2f py r) w3)));
                  w5 = print_py (NL # ''--- TRANSACTION LOG ---'') w4;
                  (entries, w6) = iter (transaction_log self) w5
              in (Inr (), self\<lparr>budget := Some b4\<rparr>,
                  print_transactions py (enumerate 1 entries) w6)))"

text \<open>The body of \<^verbatim>\<open>for i in range(5)\<close>, over the indices still to come.\<close>

fun run_loop ::
  "('f::{zero,plus,minus,ord}) builtins \<Rightarrow> nat list \<Rightarrow> 'f FinanceManager
     \<Rightarrow> 'f world
     \<Rightarrow> (exn + unit) \<times> 'f FinanceManager \<times> 'f world" where
  "run_loop py [] self w = (Inr (), self, w)"
| "run_loop py (i # rest) self w =
     (case get_transaction py self (print_py (NL # ''Transaction '' @ str_nat (i + 1)) w) of
        (Inl e, self1, w1) \<Rightarrow> (Inl e, self1, w1)
      | (Inr _, self1, w1) \<Rightarrow>
          (case check_budget_status self1 w1 of
             (Inl e, self2, w2) \<Rightarrow> (Inl e, self2, w2)
           | (Inr _, self2, w2) \<Rightarrow> run_loop py rest self2 w2))"

text \<open>
  \<open>run\<close> up to the call of \<open>print_summary\<close>: the budget prompt and the five rounds.
\<close>

definition run_rounds ::
  "('f::{zero,plus,minus,ord}) builtins \<Rightarrow> 'f FinanceManager \<Rightarrow> 'f world
     \<Rightarrow> (exn + unit) \<times> 'f FinanceManager \<times> 'f world" where
  "run_rounds py self w =
     (case get_budget py self (print_py (''Welcome to the Personal Finance Manager'' @ [NL]) w) of
        (Inl e, self1, w1) \<Rightarrow> (Inl e, self1, w1)
      | (Inr _, self1, w1) \<Rightarrow>
          run_loop py [0..<5] self1 (print_py (NL # ''Enter at least 5 transactions.'') w1))"

definition run ::
  "('f::{zero,plus,minus,ord}) builtins \<Rightarrow> 'f FinanceManager \<Rightarrow> 'f world
     \<Rightarrow> (exn + unit) \<times> 'f FinanceManager \<times> 'f world" where
  "run py self w =
     (case run_rounds py self w of
        (Inl e, self1, w1) \<Rightarrow> (Inl e, self1, w1)
      | (Inr _, self1, w1) \<Rightarrow> print_summary py self1 w1)"

definition main :: "('f::{zero,plus,minus,ord}) builtins \<Rightarrow> 'f world
     \<Rightarrow> (exn + unit) \<times> 'f FinanceManager \<times> 'f world" where
  "main py w = (let (manager, w1) = FinanceManager_init w in run py manager w1)"

section \<open>Python floats\<close>

text \<open>
  A Python float is an IEEE 754 double: a finite value, an infinity or NaN (the sign of zero
  is not modelled). \<open>round_double\<close> rounds a real number to the nearest number with a
  53-bit significand whose unit in the last place is at least \<open>2\<^sup>-\<^sup>1\<^sup>0\<^sup>7\<^sup>4\<close>, ties to the
  even significand; \<open>binade x\<close> is the exponent \<open>e\<close> with \<open>2\<^sup>e \<le> \<bar>x\<bar> < 2\<^sup>e\<^sup>+\<^sup>1\<close>.
  A result of magnitude \<open>2\<^sup>1\<^sup>0\<^sup>2\<^sup>4\<close> or more is an infinity. Comparisons with NaN are
  false.
\<close>

datatype pyfloat = Finite real | PosInf | NegInf | NaN

definition round_even :: "real \<Rightarrow> int" where
  "round_even y =
     (let n = \<lfloor>y\<rfloor>; r = y - of_int n
      in if r < 1 / 2 then n else if 1 / 2 < r then n + 1 else if even n then n else n + 1)"

fun ilog2 :: "nat \<Rightarrow> nat" where
  "ilog2 n = (if n < 2 then 0 else Suc (ilog2 (n div 2)))"

declare ilog2.simps [simp del]

definition binade :: "real \<Rightarrow> int" where
  "binade x =
     (if 1 \<le> \<bar>x\<bar> then int (ilog2 (nat \<lfloor>\<bar>x\<bar>\<rfloor>))
      else - int (ilog2 (nat \<lceil>1 / \<bar>x\<bar>\<rceil> - 1)) - 1)"

definition pow2 :: "int \<Rightarrow> real" where
  "pow2 k = (if 0 \<le> k then 2 ^ nat k else 1 / 2 ^ nat (- k))"

definition round_double :: "real \<Rightarrow> real" where
  "round_double x =
     (if x = 0 then 0
      else let u = pow2 (max (binade x - 52) (- 1074))
           in of_int (round_even (x / u)) * u)"

definition to_double :: "real \<Rightarrow> pyfloat" where
  "to_double x =
     (let y = round_double x
      in if 2 ^ 1024 \<le> y then PosInf else if y \<le> - (2 ^ 1024) then NegInf else Finite y)"

instantiation pyfloat :: "{zero, plus, minus, ord}"
begin

definition zero_pyfloat :: pyfloat where
  "zero_pyfloat = Finite 0"

fun plus_pyfloat :: "pyfloat \<Rightarrow> pyfloat \<Rightarrow> pyfloat" where
  "plus_pyfloat NaN _ = NaN"
| "plus_pyfloat _ NaN = NaN"
| "plus_pyfloat PosInf NegInf = NaN"
| "plus_pyfloat NegInf PosInf = NaN"
| "plus_pyfloat PosInf _ = PosInf"
| "plus_pyfloat _ PosInf = PosInf"
| "plus_pyfloat NegInf _ = NegInf"
| "plus_pyfloat _ NegInf = NegInf"
| "plus_pyfloat (Finite a) (Finite b) = to_double (a + b)"

fun minus_pyfloat :: "pyfloat \<Rightarrow> pyfloat \<Rightarrow> pyfloat" where
  "minus_pyfloat NaN _ = NaN"
| "minus_pyfloat _ NaN = NaN"
| "minus_pyfloat PosInf PosInf = NaN"
| "minus_pyfloat NegInf NegInf = NaN"
| "minus_pyfloat PosInf _ = PosInf"
| "minus_pyfloat _ PosInf = NegInf"
| "minus_pyfloat NegInf _ = NegInf"
| "minus_pyfloat _ NegInf = PosInf"
| "minus_pyfloat (Finite a) (Finite b) = to_double (a - b)"

fun less_pyfloat :: "pyfloat \<Rightarrow> pyfloat \<Rightarrow> bool" where
  "less_pyfloat NaN _ = False"
| "less_pyfloat _ NaN = False"
| "less_pyfloat (Finite a) (Finite b) = (a < b)"
| "less_pyfloat PosInf _ = False"
| "less_pyfloat _ PosInf = True"
| "less_pyfloat _ NegInf = False"
| "less_pyfloat NegInf _ = True"

definition less_eq_pyfloat :: "pyfloat \<Rightarrow> pyfloat \<Rightarrow> bool" where
  "less_eq_pyfloat a b = (a < b \<or> (a = b \<and> a \<noteq> NaN))"

instance ..

end


text \<open>The values a float can hold: the doubles, the two infinities and NaN.\<close>

definition is_double :: "pyfloat \<Rightarrow> bool" where
  "is_double p =
     (case p of Finite x \<Rightarrow> round_double x = x \<and> \<bar>x\<bar> < 2 ^ 1024 | _ \<Rightarrow> True)"

section \<open>A concrete runtime for running sessions\<close>

text \<open>
  To run the program on a concrete session the three library functions need values.
  \<open>decimal_float\<close> reads an optional minus sign followed by decimal digits, as Python
  does, and rejects every other string with Python's message (Python reads more: fractions,
  exponents, surrounding blanks; the sessions below type none of these).
  \<open>fixed_2f\<close> rounds to two decimals, ties to even; \<open>clock_HMS\<close> reads a timestamp
  as seconds since midnight.
\<close>

definition is_digit :: "char \<Rightarrow> bool" where
  "is_digit c = (48 \<le> (of_char c :: nat) \<and> (of_char c :: nat) \<le> 57)"

definition nat_of_digits :: "string \<Rightarrow> nat" where
  "nat_of_digits ds = foldl (\<lambda>acc c. 10 * acc + (of_char c - 48)) 0 ds"

definition decimal_float :: "string \<Rightarrow> string + real" where
  "decimal_float s =
     (let negative = (s \<noteq> [] \<and> hd s = CHR ''-'');
          body = (if negative then tl s else s)
      in if body \<noteq> [] \<and> list_all is_digit body
         then Inr (if negative then - real (nat_of_digits body) else real (nat_of_digits body))
         else Inl (''could not convert string to float: '' @ [CHR 0x27] @ s @ [CHR 0x27]))"

definition two_digits :: "nat \<Rightarrow> string" where
  "two_digits n = [digit_char (n div 10 mod 10), digit_char (n mod 10)]"

definition fixed_2f :: "real \<Rightarrow> string" where
  "fixed_2f x =
     (let y = \<bar>x\<bar> * 100;
          n = nat \<lfloor>y\<rfloor>;
          cents = (if y - real n > 1 / 2 \<or> (y - real n = 1 / 2 \<and> odd n) then Suc n else n)
      in (if x < 0 then ''-'' else []) @ str_nat (cents div 100) @ ''.'' @ two_digits (cents mod 100))"

definition clock_HMS :: "timestamp \<Rightarrow> string" where
  "clock_HMS t =
     two_digits (t div 3600 mod 24) @ '':'' @ two_digits (t div 60 mod 60) @ '':''
       @ two_digits (t mod 60)"

definition session_builtins :: "real builtins" where
  "session_builtins = \<lparr>py_float = decimal_float, format_2f = fixed_2f, strftime_HMS = clock_HMS\<rparr>"

text \<open>
  The world at process start with the given lines waiting on standard input: no list
  object allocated, nothing printed, and a clock that starts at 09:00:00 and advances by
  one second per reading.
\<close>

definition start_world :: "string list \<Rightarrow> 'f world" where
  "start_world inputs =
     \<lparr>lists = (\<lambda>_. []), next_ref = 0, stdin = inputs, stdout = [],
      clock = (\<lambda>i. 32400 + i), clock_reads = 0\<rparr>"

section \<open>Notions used in the statements\<close>

text \<open>
  A line typed at a numeric prompt is malformed when \<^verbatim>\<open>float\<close> rejects it or when
  the number it denotes is negative. The report printed for such a line carries the message
  of the \<^verbatim>\<open>ValueError\<close>: the one of \<^verbatim>\<open>float\<close>, or the one of the check that
  found the number negative. \<open>retries\<close> is what a prompt writes to standard output
  while it goes through a sequence of malformed lines: the prompt, then the report, for
  each line.
\<close>

definition malformed :: "('f::{zero,ord}) builtins \<Rightarrow> string \<Rightarrow> bool" where
  "malformed py line = (case py_float py line of Inl _ \<Rightarrow> True | Inr x \<Rightarrow> x < 0)"

definition report :: "'f builtins \<Rightarrow> string \<Rightarrow> string \<Rightarrow> string" where
  "report py negative line =
     invalid_input (case py_float py line of Inl msg \<Rightarrow> msg | Inr _ \<Rightarrow> negative) @ [NL]"

definition retries :: "'f builtins \<Rightarrow> string \<Rightarrow> string \<Rightarrow> string list
     \<Rightarrow> string list" where
  "retries py prompt negative bad = concat (map (\<lambda>line. [prompt, report py negative line]) bad)"

text \<open>The message of a \<^verbatim>\<open>ValueError\<close> outcome, if the outcome is one.\<close>

definition value_error_msg :: "exn + 'a \<Rightarrow> string option" where
  "value_error_msg r = (case r of Inl (ValueError e) \<Rightarrow> Some e | _ \<Rightarrow> None)"

text \<open>
  Concrete sessions: a freshly created log; that log after \<^verbatim>\<open>add_transaction("coffee", 5)\<close>;
  a manager that reads the budget \<open>100\<close> and then records one expense, typing \<open>-5\<close>
  before \<open>10\<close> at the amount prompt; one that types \<open>abc\<close> and \<open>-1\<close> before
  \<open>100\<close> there; and a whole run of the program in which \<open>-5\<close> is typed before
  \<open>10\<close> in the first of the five rounds. The sessions are run in exact arithmetic; the
  numbers typed in them are small integers, which floats add without rounding.
\<close>

definition empty_log :: "TransactionLog \<times> real world" where
  "empty_log = TransactionLog_init (start_world [])"

definition coffee_log :: "real world" where
  "coffee_log = snd (add_transaction ''coffee'' 5 (fst empty_log) (snd empty_log))"

definition retry_session ::
  "(exn + real Transaction) \<times> real FinanceManager \<times> real world" where
  "retry_session =
     (let (manager, w0) = FinanceManager_init (start_world [''100'', ''lunch'', ''-5'', ''10'']);
          (_, manager1, w1) = get_budget session_builtins manager w0
      in get_transaction session_builtins manager1 w1)"

definition leak_session ::
  "(exn + real Transaction) \<times> real FinanceManager \<times> real world" where
  "leak_session =
     (let (manager, w0) =
            FinanceManager_init (start_world [''100'', ''lunch'', ''abc'', ''-1'', ''100'']);
          (_, manager1, w1) = get_budget session_builtins manager w0
      in get_transaction session_builtins manager1 w1)"

definition six_entry_session :: "(exn + unit) \<times> real FinanceManager \<times> real world" where
  "six_entry_session =
     main session_builtins
       (start_world [''100'', ''a'', ''-5'', ''10'', ''b'', ''1'', ''c'', ''1'', ''d'', ''1'', ''e'', ''1''])"

section \<open>Budget: recording expenses\<close>

lemma add_expenses_nonneg:
  "\<forall>a\<in>set as. (0::real) \<le> a \<Longrightarrow>
     add_expenses as b = (Inr (), b\<lparr>budget_spent := budget_spent b + sum_list as\<rparr>)"
proof (induction as arbitrary: b)
  case Nil
  show ?case by simp
next
  case (Cons a as)
  then show ?case by (simp add: add_expense_def add.assoc)
qed


text \<open>In exact arithmetic the running total is the sum, and the totals are as follows.\<close>

lemma budget_totals_exact:
  assumes "(0::real) \<le> L" and "\<forall>a\<in>set as. 0 \<le> a"
  shows "\<exists>b0 b. Budget_init L = Inr b0 \<and> fst (remaining b0) = L \<and> fst (total_spent b0) = 0
           \<and> add_expenses as b0 = (Inr (), b)
           \<and> fst (total_spent b) = sum_list as
           \<and> fst (remaining b) = L - sum_list as
           \<and> (fst (is_exceeded b) \<longleftrightarrow> sum_list as > L)
           \<and> fst (deficit b) = max (sum_list as - L) 0"
proof -
  let ?start = "\<lparr>budget_amount = L, budget_spent = 0\<rparr>"
  let ?final = "?start\<lparr>budget_spent := budget_spent ?start + sum_list as\<rparr>"
  have init: "Budget_init L = Inr ?start"
    using assms(1) by (simp add: Budget_init_def)
  have run: "add_expenses as ?start = (Inr (), ?final)"
    using assms(2) by (rule add_expenses_nonneg)
  have q0: "fst (remaining ?start) = L \<and> fst (total_spent ?start) = 0"
    by (simp add: remaining_def total_spent_def)
  have q: "fst (total_spent ?final) = sum_list as \<and> fst (remaining ?final) = L - sum_list as
      \<and> (fst (is_exceeded ?final) \<longleftrightarrow> sum_list as > L)
      \<and> fst (deficit ?final) = max (sum_list as - L) 0"
    by (simp add: total_spent_def remaining_def is_exceeded_def deficit_def max_def)
  from init run q0 q show ?thesis by blast
qed


text \<open>Python floats: what is not negative passes the check, and subtracting 0 changes nothing.\<close>

lemma pyfloat_nonneg: "(0::pyfloat) \<le> x \<Longrightarrow> \<not> x < 0"
  by (cases x) (auto simp: less_eq_pyfloat_def zero_pyfloat_def)


lemma pyfloat_plus_zero: "is_double x \<Longrightarrow> x + 0 = x"
  by (cases x) (auto simp: is_double_def zero_pyfloat_def to_double_def Let_def)

text \<open>
  The checks of \<open>Budget\<close> and the recording of 0, in Python floats: a negative limit or
  amount is refused and the budget left as it was, any other amount is added, and adding 0
  to a total that is a float leaves the budget as it was.
\<close>

lemma budget_validation_pyfloat:
  fixes L a c :: pyfloat
  shows "(L < 0 \<longrightarrow> Budget_init L = Inl (ValueError ''Budget cannot be negative''))
   \<and> (a < 0 \<longrightarrow> add_expense a b = (Inl (ValueError ''Expense amount cannot be negative''), b))
   \<and> (0 \<le> c \<longrightarrow> add_expense c b = (Inr (), b\<lparr>budget_spent := budget_spent b + c\<rparr>))"
  by (simp add: Budget_init_def add_expense_def pyfloat_nonneg)

lemma add_expense_zero_pyfloat:
  fixes b :: "pyfloat Budget"
  assumes "is_double (budget_spent b)"
  shows "add_expense 0 b = (Inr (), b)"
proof -
  have "\<not> (0::pyfloat) < 0"
    by (simp add: zero_pyfloat_def)
  with assms show ?thesis
    by (simp add: add_expense_def pyfloat_plus_zero)
qed


section \<open>The prompts: what one pass and the whole loop do\<close>

lemma get_budget_try_bad:
  fixes py :: "real builtins"
  assumes "malformed py line" and "stdin w = line # rest"
  shows "\<exists>e. get_budget_try py self w =
           (Inl (ValueError e), self,
            w\<lparr>stdin := rest, stdout := stdout w @ [''Enter your weekly budget: '']\<rparr>)
         \<and> invalid_input e @ [NL] = report py ''Budget cannot be negative'' line"
  using assms
  by (auto simp: malformed_def report_def get_budget_try_def input_py_def float_py_def
        Budget_init_def Let_def split: sum.splits)

lemma get_budget_try_good:
  fixes py :: "real builtins"
  assumes "py_float py line = Inr v" and "0 \<le> v" and "stdin w = line # rest"
  shows "get_budget_try py self w =
           (Inr \<lparr>budget_amount = v, budget_spent = 0\<rparr>,
            self\<lparr>budget := Some \<lparr>budget_amount = v, budget_spent = 0\<rparr>\<rparr>,
            w\<lparr>stdin := rest, stdout := stdout w @ [''Enter your weekly budget: '']\<rparr>)"
  using assms
  by (simp add: get_budget_try_def input_py_def float_py_def Budget_init_def Let_def)

lemma get_budget_retries:
  fixes py :: "real builtins"
  assumes "\<forall>line\<in>set bad. malformed py line" and "py_float py good = Inr v" and "0 \<le> v"
    and "stdin w = bad @ good # rest"
  shows "get_budget py self w =
           (Inr \<lparr>budget_amount = v, budget_spent = 0\<rparr>,
            self\<lparr>budget := Some \<lparr>budget_amount = v, budget_spent = 0\<rparr>\<rparr>,
            w\<lparr>stdin := rest,
              stdout := stdout w
                @ retries py ''Enter your weekly budget: '' ''Budget cannot be negative'' bad
                @ [''Enter your weekly budget: '']\<rparr>)"
  using assms(1,4)
proof (induction bad arbitrary: w)
  case Nil
  then have "stdin w = good # rest" by simp
  from get_budget_try_good [OF assms(2,3) this, of self]
  show ?case by (simp add: get_budget.simps [of py self w] retries_def)
next
  case (Cons line bad)
  from Cons.prems have bad: "malformed py line" and rest: "stdin w = line # (bad @ good # rest)"
    by simp_all
  from get_budget_try_bad [OF bad rest, of self] obtain e where
    attempt: "get_budget_try py self w = (Inl (ValueError e), self,
            w\<lparr>stdin := bad @ good # rest, stdout := stdout w @ [''Enter your weekly budget: '']\<rparr>)"
    and msg: "invalid_input e @ [NL] = report py ''Budget cannot be negative'' line"
    by blast
  let ?w1 = "print_py (invalid_input e)
      (w\<lparr>stdin := bad @ good # rest, stdout := stdout w @ [''Enter your weekly budget: '']\<rparr>)"
  have step: "get_budget py self w = get_budget py self ?w1"
    by (simp add: get_budget.simps [of py self w] attempt)
  have "\<forall>line\<in>set bad. malformed py line" and "stdin ?w1 = bad @ good # rest"
    using Cons.prems by (simp_all add: print_py_def)
  from Cons.IH [OF this] step msg show ?case
    by (simp add: print_py_def retries_def)
qed

lemma get_budget_error:
  "fst (get_budget py self w) = Inl e \<Longrightarrow> e = EOFError"
proof (induction py self w rule: get_budget.induct)
  case (1 py self w)
  show ?case
  proof (cases "get_budget_try py self w")
    case (fields r self1 w1)
    show ?thesis
    proof (cases r)
      case (Inr b)
      with fields "1.prems" show ?thesis by (simp add: get_budget.simps [of py self w])
    next
      case (Inl x)
      show ?thesis
      proof (cases x)
        case (ValueError msg)
        with Inl fields "1.prems" "1.IH" show ?thesis
          by (simp add: get_budget.simps [of py self w])
      next
        case EOFError
        with Inl fields "1.prems" show ?thesis by (simp add: get_budget.simps [of py self w])
      next
        case (AttributeError a)
        with Inl fields have False
          by (auto simp: get_budget_try_def input_py_def float_py_def Budget_init_def Let_def
                split: list.splits sum.splits if_splits)
        then show ?thesis ..
      qed
    qed
  qed
qed


lemmas get_transaction_try_defs =
  get_transaction_try_def input_py_def float_py_def add_transaction_def Transaction_init_def
  datetime_now_def list_append_def add_expense_def Let_def

lemma get_transaction_try_bad:
  fixes py :: "real builtins"
  assumes "malformed py line" and "stdin w = line # rest" and "budget self = Some b"
  shows "\<exists>e self1 w1. get_transaction_try py d self w = (Inl (ValueError e), self1, w1)
           \<and> budget self1 = Some b \<and> transaction_log self1 = transaction_log self
           \<and> stdin w1 = rest \<and> stdout w1 = stdout w @ [''Enter expense amount: '']
           \<and> invalid_input e @ [NL] = report py ''Expense amount cannot be negative'' line"
  using assms
  by (auto simp: malformed_def report_def get_transaction_try_defs split: sum.splits)

lemma get_transaction_try_good:
  fixes py :: "real builtins"
  assumes "py_float py line = Inr v" and "0 \<le> v" and "stdin w = line # rest"
    and "budget self = Some b"
  shows "\<exists>t self1 w1. get_transaction_try py d self w = (Inr t, self1, w1)
           \<and> budget self1 = Some (b\<lparr>budget_spent := budget_spent b + v\<rparr>)
           \<and> transaction_log self1 = transaction_log self
           \<and> stdin w1 = rest \<and> stdout w1 = stdout w @ [''Enter expense amount: '']
           \<and> tx_description t = d \<and> tx_amount t = v
           \<and> lists w1 (log_transactions (transaction_log self)) \<noteq> []
           \<and> last (lists w1 (log_transactions (transaction_log self))) = t"
  using assms
  by (simp add: get_transaction_try_defs)

lemma get_transaction_loop_retries:
  fixes py :: "real builtins"
  assumes "\<forall>line\<in>set bad. malformed py line" and "py_float py good = Inr v" and "0 \<le> v"
    and "stdin w = bad @ good # rest" and "budget self = Some b"
  shows "\<exists>t self1 w1. get_transaction_loop py d self w = (Inr t, self1, w1)
           \<and> budget self1 = Some (b\<lparr>budget_spent := budget_spent b + v\<rparr>)
           \<and> transaction_log self1 = transaction_log self
           \<and> stdin w1 = rest
           \<and> stdout w1 = stdout w
                @ retries py ''Enter expense amount: '' ''Expense amount cannot be negative'' bad
                @ [''Enter expense amount: '']
           \<and> tx_description t = d \<and> tx_amount t = v
           \<and> lists w1 (log_transactions (transaction_log self)) \<noteq> []
           \<and> last (lists w1 (log_transactions (transaction_log self))) = t"
  using assms(1,4,5)
proof (induction bad arbitrary: w self)
  case Nil
  then have "stdin w = good # rest" by simp
  from get_transaction_try_good [OF assms(2,3) this Nil.prems(3), of d]
  show ?case by (auto simp: get_transaction_loop.simps [of py d self w] retries_def)
next
  case (Cons line bad)
  from Cons.prems have bad: "malformed py line" and rest: "stdin w = line # (bad @ good # rest)"
    by simp_all
  from get_transaction_try_bad [OF bad rest Cons.prems(3), of d] obtain e self1 w1 where
    attempt: "get_transaction_try py d self w = (Inl (ValueError e), self1, w1)"
    and kept: "budget self1 = Some b" "transaction_log self1 = transaction_log self"
    and io: "stdin w1 = bad @ good # rest" "stdout w1 = stdout w @ [''Enter expense amount: '']"
    and msg: "invalid_input e @ [NL] = report py ''Expense amount cannot be negative'' line"
    by blast
  let ?w2 = "print_py (invalid_input e) w1"
  have step: "get_transaction_loop py d self w = get_transaction_loop py d self1 ?w2"
    by (simp add: get_transaction_loop.simps [of py d self w] attempt)
  have "\<forall>line\<in>set bad. malformed py line" and "stdin ?w2 = bad @ good # rest"
    using Cons.prems io by (simp_all add: print_py_def)
  from Cons.IH [OF this kept(1)] obtain t self2 w3 where
    res: "get_transaction_loop py d self1 ?w2 = (Inr t, self2, w3)"
    and props: "budget self2 = Some (b\<lparr>budget_spent := budget_spent b + v\<rparr>)"
      "transaction_log self2 = transaction_log self1" "stdin w3 = rest"
      "stdout w3 = stdout ?w2
         @ retries py ''Enter expense amount: '' ''Expense amount cannot be negative'' bad
         @ [''Enter expense amount: '']"
      "tx_description t = d" "tx_amount t = v"
      "lists w3 (log_transactions (transaction_log self1)) \<noteq> []"
      "last (lists w3 (log_transactions (transaction_log self1))) = t"
    by blast
  have out: "stdout w3 = stdout w
      @ retries py ''Enter expense amount: '' ''Expense amount cannot be negative'' (line # bad)
      @ [''Enter expense amount: '']"
    using props(4) io(2) msg by (simp add: print_py_def retries_def)
  from step res props kept out show ?case by simp
qed

lemma get_transaction_try_keeps_budget:
  assumes "get_transaction_try py d self w = (r, self1, w1)" and "budget self \<noteq> None"
  shows "budget self1 \<noteq> None \<and> (\<forall>a. r \<noteq> Inl (AttributeError a))"
  using assms
  by (auto simp: get_transaction_try_defs split: list.splits sum.splits if_splits)

lemma get_transaction_loop_error:
  "fst (get_transaction_loop py d self w) = Inl e \<Longrightarrow> budget self \<noteq> None \<Longrightarrow> e = EOFError"
proof (induction py d self w rule: get_transaction_loop.induct)
  case (1 py d self w)
  show ?case
  proof (cases "get_transaction_try py d self w")
    case (fields r self1 w1)
    from get_transaction_try_keeps_budget [OF fields "1.prems"(2)]
    have b1: "budget self1 \<noteq> None" and noattr: "\<forall>a. r \<noteq> Inl (AttributeError a)"
      by simp_all
    show ?thesis
    proof (cases r)
      case (Inr t)
      with fields "1.prems" show ?thesis
        by (simp add: get_transaction_loop.simps [of py d self w])
    next
      case (Inl x)
      show ?thesis
      proof (cases x)
        case (ValueError msg)
        with Inl fields "1.prems" "1.IH" b1 show ?thesis
          by (simp add: get_transaction_loop.simps [of py d self w])
      next
        case EOFError
        with Inl fields "1.prems" show ?thesis
          by (simp add: get_transaction_loop.simps [of py d self w])
      next
        case (AttributeError a)
        with Inl noattr show ?thesis by simp
      qed
    qed
  qed
qed

lemma get_transaction_error:
  assumes "fst (get_transaction py self w) = Inl e" and "budget self \<noteq> None"
  shows "e = EOFError"
proof (cases "stdin w")
  case Nil
  with assms(1) show ?thesis by (simp add: get_transaction_def input_py_def)
next
  case (Cons d rest)
  with assms(1) have "fst (get_transaction_loop py d self
      (w\<lparr>stdout := stdout w @ [''Enter expense description: ''], stdin := rest\<rparr>)) = Inl e"
    by (simp add: get_transaction_def input_py_def)
  then show ?thesis using assms(2) by (rule get_transaction_loop_error)
qed

lemma get_transaction_retries:
  fixes py :: "real builtins"
  assumes "\<forall>line\<in>set bad. malformed py line" and "py_float py good = Inr v" and "0 \<le> v"
    and "stdin w = d # bad @ good # rest" and "budget self = Some b"
  shows "\<exists>t self1 w1. get_transaction py self w = (Inr t, self1, w1)
           \<and> budget self1 = Some (b\<lparr>budget_spent := budget_spent b + v\<rparr>)
           \<and> stdin w1 = rest
           \<and> stdout w1 = stdout w @ [''Enter expense description: '']
                @ retries py ''Enter expense amount: '' ''Expense amount cannot be negative'' bad
                @ [''Enter expense amount: '']
           \<and> tx_description t = d \<and> tx_amount t = v
           \<and> last (lists w1 (log_transactions (transaction_log self))) = t"
proof -
  let ?w0 = "w\<lparr>stdout := stdout w @ [''Enter expense description: ''], stdin := bad @ good # rest\<rparr>"
  have start: "get_transaction py self w = get_transaction_loop py d self ?w0"
    using assms(4) by (simp add: get_transaction_def input_py_def)
  have "stdin ?w0 = bad @ good # rest" by simp
  from get_transaction_loop_retries [OF assms(1,2,3) this assms(5), of d] start
  show ?thesis by auto
qed

section \<open>Running the loops on concrete input\<close>

text \<open>
  The defining equations of the two loops, guarded by a conditional: the simplifier unfolds
  the next round only once the outcome of the current one is known.
\<close>

lemma get_budget_step:
  "get_budget py self w =
     (if value_error_msg (fst (get_budget_try py self w)) = None
      then get_budget_try py self w
      else get_budget py (fst (snd (get_budget_try py self w)))
             (print_py (invalid_input (the (value_error_msg (fst (get_budget_try py self w)))))
                (snd (snd (get_budget_try py self w)))))"
  by (subst get_budget.simps)
     (auto simp: value_error_msg_def split: prod.splits sum.splits exn.splits)

lemma get_transaction_loop_step:
  "get_transaction_loop py d self w =
     (if value_error_msg (fst (get_transaction_try py d self w)) = None
      then get_transaction_try py d self w
      else get_transaction_loop py d (fst (snd (get_transaction_try py d self w)))
             (print_py (invalid_input (the (value_error_msg (fst (get_transaction_try py d self w)))))
                (snd (snd (get_transaction_try py d self w)))))"
  by (subst get_transaction_loop.simps)
     (auto simp: value_error_msg_def split: prod.splits sum.splits exn.splits)

lemmas run_defs =
  get_budget_step get_transaction_loop_step value_error_msg_def
  get_budget_try_def get_transaction_try_def get_transaction_def check_budget_status_def
  FinanceManager_init_def TransactionLog_init_def list_new_def start_world_def
  input_py_def print_py_def float_py_def invalid_input_def
  add_transaction_def Transaction_init_def datetime_now_def list_append_def
  Budget_init_def add_expense_def is_exceeded_def
  session_builtins_def decimal_float_def is_digit_def nat_of_digits_def
  count_def get_total_def Transaction_amount_def Let_def

lemma range5: "[0..<5] = [0, 1, 2, 3, 4]"
  by (simp add: upt_rec)

section \<open>The claims\<close>

text \<open>
  C1. The manager keeps the log and the budget in step: after every call of
  \<open>get_transaction\<close> the total of the log equals the total spent of the budget, also when
  a negative amount was typed and the prompt repeated. The code does otherwise. In the
  session below the budget is 100 and the user types the description \<open>lunch\<close>, then
  \<open>-5\<close>, then \<open>10\<close>. \<open>get_transaction\<close> returns the transaction of amount 10 and the
  budget has spent 10, but the log holds two entries and totals 5: the entry of amount
  \<open>-5\<close> was appended before \<open>add_expense\<close> rejected the amount.
\<close>

theorem get_transaction_retry_log_mismatch: "fst retry_session = Inr \<lparr>tx_description = ''lunch'', tx_amount = 10, tx_timestamp = 32401\<rparr>
  \<and> budget (fst (snd retry_session)) = Some \<lparr>budget_amount = 100, budget_spent = 10\<rparr>
  \<and> fst (get_total (transaction_log (fst (snd retry_session))) (snd (snd retry_session))) = 5
  \<and> fst (count (transaction_log (fst (snd retry_session))) (snd (snd retry_session))) = 2"
  by (simp add: retry_session_def run_defs)






text \<open>
  C4. A complete run records exactly five transactions, one per round. The code does
  otherwise when a negative amount is typed: in the run below (budget 100; in the first
  round \<open>-5\<close> is typed before \<open>10\<close>; the four other rounds record 1 each) the program
  returns normally with all input consumed, and the log that the summary lists has six
  entries.
\<close>

theorem run_six_entries: "fst six_entry_session = Inr ()
  \<and> stdin (snd (snd six_entry_session)) = []
  \<and> budget (fst (snd six_entry_session)) = Some \<lparr>budget_amount = 100, budget_spent = 14\<rparr>
  \<and> fst (count (transaction_log (fst (snd six_entry_session))) (snd (snd six_entry_session))) = 6
  \<and> fst (get_total (transaction_log (fst (snd six_entry_session))) (snd (snd six_entry_session))) = 9"
  by (simp add: six_entry_session_def main_def run_def run_rounds_def range5 run_defs
        print_summary_def print_transactions_def total_budget_def total_spent_def
        deficit_def remaining_def iter_def enumerate_eq_zip)

text \<open>
  C5. Constructing a budget with a negative limit raises the \<^verbatim>\<open>ValueError\<close>
  "Budget cannot be negative" and yields no budget. \<open>add_expense\<close> with a negative amount
  raises the \<^verbatim>\<open>ValueError\<close> "Expense amount cannot be negative" and leaves the budget as
  it was. \<open>add_expense\<close> with a non-negative amount returns normally and adds the amount
  to the total spent, whatever the limit is.
\<close>

theorem budget_validation:
  "((L::real) < 0 \<longrightarrow> Budget_init L = Inl (ValueError ''Budget cannot be negative''))
   \<and> ((a::real) < 0 \<longrightarrow> add_expense a b = (Inl (ValueError ''Expense amount cannot be negative''), b))
   \<and> (0 \<le> c \<longrightarrow> add_expense c b = (Inr (), b\<lparr>budget_spent := budget_spent b + c\<rparr>))"
  by (simp add: Budget_init_def add_expense_def)

theorem budget_validation_witness:
  "Budget_init (-10 :: real) = Inl (ValueError ''Budget cannot be negative'')
   \<and> add_expense (-1) \<lparr>budget_amount = 100 :: real, budget_spent = 70\<rparr>
       = (Inl (ValueError ''Expense amount cannot be negative''),
          \<lparr>budget_amount = 100, budget_spent = 70\<rparr>)
   \<and> add_expense 50 \<lparr>budget_amount = 100 :: real, budget_spent = 70\<rparr>
       = (Inr (), \<lparr>budget_amount = 100, budget_spent = 120\<rparr>)"
  using budget_validation [of "-10" "-1" "\<lparr>budget_amount = 100, budget_spent = 70\<rparr>" 50]
  by simp

text \<open>
  C6. The \<open>transactions\<close> accessor must not let its caller change the log. The code
  does otherwise: the accessor returns the reference the log itself holds. On a log with
  one entry of amount 5, clearing the list the accessor returned leaves the log with no
  entry, a total of 0 and nothing to iterate over.
\<close>

theorem transactions_exposes_list:
  "fst (transactions (fst empty_log) coffee_log) = log_transactions (fst empty_log)
   \<and> fst (count (fst empty_log) coffee_log) = 1
   \<and> fst (get_total (fst empty_log) coffee_log) = 5
   \<and> fst (count (fst empty_log)
        (list_clear (fst (transactions (fst empty_log) coffee_log))
           (snd (transactions (fst empty_log) coffee_log)))) = 0
   \<and> fst (get_total (fst empty_log)
        (list_clear (fst (transactions (fst empty_log) coffee_log))
           (snd (transactions (fst empty_log) coffee_log)))) = 0
   \<and> fst (iter (fst empty_log)
        (list_clear (fst (transactions (fst empty_log) coffee_log))
           (snd (transactions (fst empty_log) coffee_log)))) = []"
  by (simp add: coffee_log_def empty_log_def TransactionLog_init_def list_new_def start_world_def
        add_transaction_def Transaction_init_def datetime_now_def list_append_def count_def
        get_total_def iter_def Transaction_amount_def transactions_def list_clear_def)

text \<open>
  C7. Malformed input at a numeric prompt is caught at the prompt, reported, and the
  prompt repeated; it never gets past the prompt. For a negative number at the amount
  prompt the code does otherwise. In the session below the budget is 100 and the user
  types the description \<open>lunch\<close>, then \<open>abc\<close>, \<open>-1\<close> and \<open>100\<close> at the amount
  prompt. Both malformed lines are reported and the prompt is repeated after each; the
  call returns the transaction of amount 100 and the budget has spent 100. The line
  \<open>abc\<close> leaves no trace, but the rejected \<open>-1\<close> has got past the prompt: it is an
  entry of the log, which holds the amounts \<open>-1\<close> and \<open>100\<close>.
\<close>

theorem get_transaction_negative_amount_logged:
  "fst leak_session
     = Inr \<lparr>tx_description = ''lunch'', tx_amount = 100, tx_timestamp = 32401\<rparr>
   \<and> budget (fst (snd leak_session)) = Some \<lparr>budget_amount = 100, budget_spent = 100\<rparr>
   \<and> stdin (snd (snd leak_session)) = []
   \<and> stdout (snd (snd leak_session))
       = [''Enter your weekly budget: '',
          ''Enter expense description: '',
          ''Enter expense amount: '',
          ''Invalid input: could not convert string to float: '' @ [CHR 0x27] @ ''abc''
            @ [CHR 0x27] @ ''. Please try again.'' @ [NL],
          ''Enter expense amount: '',
          ''Invalid input: Expense amount cannot be negative. Please try again.'' @ [NL],
          ''Enter expense amount: '']
   \<and> fst (iter (transaction_log (fst (snd leak_session))) (snd (snd leak_session)))
       = [\<lparr>tx_description = ''lunch'', tx_amount = -1, tx_timestamp = 32400\<rparr>,
          \<lparr>tx_description = ''lunch'', tx_amount = 100, tx_timestamp = 32401\<rparr>]"
  by (simp add: leak_session_def run_defs iter_def)

text \<open>
  C8. The queries change nothing and answer the same when asked again: for each of
  \<open>total_budget\<close>, \<open>total_spent\<close>, \<open>remaining\<close>, \<open>is_exceeded\<close> and \<open>deficit\<close> of a
  budget, and \<open>count\<close> and \<open>get_total\<close> of a log, the state after the call is the state
  before it, and a second call returns what the first returned.
\<close>

theorem queries_pure:
  "total_budget (snd (total_budget b)) = total_budget b \<and> snd (total_budget b) = b
   \<and> total_spent (snd (total_spent b)) = total_spent b \<and> snd (total_spent b) = b
   \<and> remaining (snd (remaining b)) = remaining b \<and> snd (remaining b) = b
   \<and> is_exceeded (snd (is_exceeded b)) = is_exceeded b \<and> snd (is_exceeded b) = b
   \<and> deficit (snd (deficit b)) = deficit b \<and> snd (deficit b) = b
   \<and> count lg (snd (count lg w)) = count lg w \<and> snd (count lg w) = w
   \<and> get_total lg (snd (get_total lg w)) = get_total lg w \<and> snd (get_total lg w) = w"
  by (simp add: total_budget_def total_spent_def remaining_def is_exceeded_def deficit_def
        count_def get_total_def)

text \<open>
  C9. For every log, every description and every amount, negative ones included,
  \<open>add_transaction\<close> returns a transaction; the count of the log has grown by one; the
  transaction is the last one the iteration yields; and it carries the description and
  the amount given.
\<close>

theorem add_transaction_appends:
  "\<exists>t w'. add_transaction d a lg w = (Inr t, w')
     \<and> fst (count lg w') = fst (count lg w) + 1
     \<and> fst (iter lg w') \<noteq> [] \<and> last (fst (iter lg w')) = t
     \<and> Transaction_description t = d \<and> Transaction_amount t = a"
  by (simp add: add_transaction_def Transaction_init_def datetime_now_def list_append_def
        count_def iter_def Transaction_description_def Transaction_amount_def)

text \<open>
  C10. For every budget, \<open>add_expense\<close> with the amount 0 returns normally and every
  query answers afterwards what it answered before.
\<close>

theorem add_expense_zero:
  "\<exists>b'. add_expense 0 (b :: real Budget) = (Inr (), b')
     \<and> fst (total_budget b') = fst (total_budget b)
     \<and> fst (total_spent b') = fst (total_spent b)
     \<and> fst (remaining b') = fst (remaining b)
     \<and> fst (is_exceeded b') = fst (is_exceeded b)
     \<and> fst (deficit b') = fst (deficit b)"
  by (simp add: add_expense_def)

end
